theory Spec2Isabelle
  imports Main "HOL-Library.Word"
begin

unbundle bit_operations_syntax

section \<open>Errors and panics\<close>

text \<open>
  Go functions return \<open>error\<close> values and may panic at run time. An error is a value of
  \<open>error\<close> below (\<open>SkipDir\<close> is \<open>filepath.SkipDir\<close>, the others name the call that
  failed); a \<open>nil\<close> error is \<open>None\<close>. A panic is the left summand of a result
  \<open>panic + 'a\<close>.
\<close>

datatype error =
    SkipDir
  | RelError
  | ReadFileError
  | LstatError
  | ReadDirError
  | AddWatchError
  | RegisterError
  | DeregisterError

datatype panic = IndexOutOfRange | NilDereference

section \<open>The path functions of Go's \<open>path/filepath\<close> and \<open>strings\<close> (Unix)\<close>

text \<open>
  The ignore matcher calls \<open>filepath.Base\<close>, \<open>filepath.Rel\<close>, \<open>filepath.ToSlash\<close> and
  \<open>strings.HasPrefix\<close>; \<open>filepath.Walk\<close> calls \<open>filepath.Join\<close>. They are part of the Go
  standard library, modelled here as they run on a Unix system: the separator is \<open>/\<close>
  and a volume name is always empty. A Go string is a byte sequence, here a \<open>string\<close>.
\<close>

definition sep :: char where
  "sep = CHR ''/''"

text \<open>
  \<open>filepath.Base\<close>: the empty path gives \<open>.\<close>; trailing separators are stripped; the
  result is what follows the last separator, and \<open>/\<close> when nothing is left.
\<close>

definition filepath_Base :: "string \<Rightarrow> string" where
  "filepath_Base path =
     (if path = [] then ''.''
      else
        let stripped = rev (dropWhile (\<lambda>c. c = sep) (rev path));
            lastElem = rev (takeWhile (\<lambda>c. c \<noteq> sep) (rev stripped))
        in if lastElem = [] then [sep] else lastElem)"

text \<open>
  \<open>filepath.Clean\<close> reads the path from the left and writes into a buffer \<open>out\<close>.
  \<open>dotdot\<close> is the index in the buffer below which a \<open>..\<close> element may not backtrack.
  \<open>backtrack out dotdot w\<close> is the loop
  \<^verbatim>\<open>for out.w > dotdot && !os.IsPathSeparator(out.index(out.w)) { out.w-- }\<close>.
\<close>

fun backtrack :: "string \<Rightarrow> nat \<Rightarrow> nat \<Rightarrow> nat" where
  "backtrack out dotdot 0 = 0"
| "backtrack out dotdot (Suc w) =
     (if Suc w > dotdot \<and> out ! Suc w \<noteq> sep then backtrack out dotdot w else Suc w)"

definition atEndOrSep :: "string \<Rightarrow> bool" where
  "atEndOrSep cs = (case cs of [] \<Rightarrow> True | c # _ \<Rightarrow> c = sep)"

function clean_loop :: "bool \<Rightarrow> string \<Rightarrow> string \<Rightarrow> nat \<Rightarrow> string" where
  "clean_loop rooted [] out dotdot = out"
| "clean_loop rooted (c # cs) out dotdot =
     (if c = sep then clean_loop rooted cs out dotdot
      else if c = CHR ''.'' \<and> atEndOrSep cs then clean_loop rooted cs out dotdot
      else if c = CHR ''.'' \<and> cs \<noteq> [] \<and> hd cs = CHR ''.'' \<and> atEndOrSep (tl cs) then
        (if length out > dotdot then
           clean_loop rooted (tl cs) (take (backtrack out dotdot (length out - 1)) out) dotdot
         else if \<not> rooted then
           (let out' = (if out \<noteq> [] then out @ [sep] else out) @ ''..''
            in clean_loop rooted (tl cs) out' (length out'))
         else clean_loop rooted (tl cs) out dotdot)
      else
        (let out' = (if (rooted \<and> length out \<noteq> 1) \<or> (\<not> rooted \<and> length out \<noteq> 0)
                     then out @ [sep] else out)
         in clean_loop rooted (dropWhile (\<lambda>x. x \<noteq> sep) (c # cs))
              (out' @ takeWhile (\<lambda>x. x \<noteq> sep) (c # cs)) dotdot))"
  by pat_completeness auto
termination
proof (relation "measure (\<lambda>(rooted, path, out, dotdot). length path)")
  show "wf (measure (\<lambda>(rooted, path, out, dotdot). length path))" by simp
next
  fix rooted :: bool and c :: char and cs out :: string and dotdot :: nat and x :: string
  assume "c \<noteq> sep"
  then have "length (dropWhile (\<lambda>x. x \<noteq> sep) (c # cs)) \<le> length cs"
    by (simp add: length_dropWhile_le)
  then show "((rooted, dropWhile (\<lambda>x. x \<noteq> sep) (c # cs),
                x @ takeWhile (\<lambda>x. x \<noteq> sep) (c # cs), dotdot),
              (rooted, c # cs, out, dotdot))
             \<in> measure (\<lambda>(rooted, path, out, dotdot). length path)"
    by simp
qed (auto simp: less_Suc_eq_le intro: le_trans)

definition filepath_Clean :: "string \<Rightarrow> string" where
  "filepath_Clean path =
     (if path = [] then ''.''
      else
        let rooted = (hd path = sep);
            out = (if rooted then clean_loop True (tl path) [sep] 1
                   else clean_loop False path [] 0)
        in if out = [] then ''.'' else out)"

text \<open>
  \<open>filepath.Join\<close> of a directory and a name, as \<open>filepath.Walk\<close> calls it: the first
  non-empty element onwards is joined with the separator and cleaned.
\<close>

definition filepath_Join :: "string \<Rightarrow> string \<Rightarrow> string" where
  "filepath_Join dir name =
     (if dir \<noteq> [] then filepath_Clean (dir @ [sep] @ name)
      else if name \<noteq> [] then filepath_Clean name
      else [])"

text \<open>
  \<open>filepath.Rel\<close>. Its loop moves two cursors over the cleaned base and target, one
  path element at a time, until the elements differ or one path ends. At the head of
  every iteration \<open>b0 = bi\<close> and \<open>t0 = ti\<close>, so the state is the two remaining suffixes
  \<open>base[b0:]\<close> and \<open>targ[t0:]\<close>; the result is \<open>(base[b0:], base[b0:bi], targ[t0:])\<close>.
\<close>

function rel_loop :: "string \<Rightarrow> string \<Rightarrow> string \<times> string \<times> string" where
  "rel_loop bs ts =
     (if bs \<noteq> [] \<and> ts \<noteq> [] then
        (let be = takeWhile (\<lambda>c. c \<noteq> sep) bs;
             te = takeWhile (\<lambda>c. c \<noteq> sep) ts
         in if te \<noteq> be then (bs, be, ts)
            else rel_loop (drop (Suc (length be)) bs) (drop (Suc (length te)) ts))
      else (bs, [], ts))"
  by pat_completeness auto
termination
  by (relation "measure (\<lambda>(bs, ts). length bs)") auto

definition filepath_Rel :: "string \<Rightarrow> string \<Rightarrow> error + string" where
  "filepath_Rel basepath targpath =
     (let base = filepath_Clean basepath;
          targ = filepath_Clean targpath
      in if targ = base then Inr ''.''
         else
           let base = (if base = ''.'' then [] else base);
               baseSlashed = (base \<noteq> [] \<and> hd base = sep);
               targSlashed = (targ \<noteq> [] \<and> hd targ = sep)
           in if baseSlashed \<noteq> targSlashed then Inl RelError
              else
                case rel_loop base targ of (bs, be, ts) \<Rightarrow>
                  if be = ''..'' then Inl RelError
                  else if bs \<noteq> [] then
                    Inr (''..'' @ concat (replicate (count_list bs sep) (sep # ''..''))
                         @ (if ts \<noteq> [] then sep # ts else []))
                  else Inr ts)"

text \<open>\<open>filepath.ToSlash\<close> replaces the separator by \<open>/\<close>: the identity on Unix.\<close>

definition filepath_ToSlash :: "string \<Rightarrow> string" where
  "filepath_ToSlash path = path"

definition strings_HasPrefix :: "string \<Rightarrow> string \<Rightarrow> bool" where
  "strings_HasPrefix s pre = (take (length pre) s = pre)"

text \<open>\<open>strings.Split(s, "\n")\<close>: the pieces between newlines, at least one.\<close>

fun strings_Split_nl :: "string \<Rightarrow> string list" where
  "strings_Split_nl [] = [[]]"
| "strings_Split_nl (c # cs) =
     (if c = CHR 0x0A then [] # strings_Split_nl cs
      else (case strings_Split_nl cs of
              [] \<Rightarrow> [[c]]
            | l # ls \<Rightarrow> (c # l) # ls))"

section \<open>The ignore matcher (\<open>internal/gitignore/gitignore.go\<close>)\<close>

text \<open>
  The struct \<open>Matcher\<close>. The field \<open>ignore\<close> is a pointer to the compiled pattern set
  of the library \<open>go-gitignore\<close>; the program only calls its method \<open>MatchesPath\<close>, so the
  object is that predicate, and a \<open>nil\<close> pointer is \<open>None\<close>.
\<close>

record Matcher =
  ignore :: "(string \<Rightarrow> bool) option"
  workspacePath :: string
  hasGitIgnore :: bool
  defaultIgnores :: "string list"

text \<open>
  What \<open>NewMatcher\<close> finds at \<open>.gitignore\<close> in the workspace root: nothing
  (\<open>os.Stat\<close> fails), a file that \<open>os.ReadFile\<close> cannot read, or its content.
\<close>

datatype gitignore_file = NoFile | Unreadable | Content string

text \<open>
  \<open>NewMatcher\<close>. \<open>compile\<close> stands for the library's \<open>ignore.CompileIgnoreLines\<close>, which
  turns the lines into a pattern set.
\<close>

definition NewMatcher ::
    "(string list \<Rightarrow> string \<Rightarrow> bool) \<Rightarrow> gitignore_file \<Rightarrow> string \<Rightarrow> error + Matcher" where
  "NewMatcher compile gitignoreFile wsPath =
     (let matcher = \<lparr> ignore = None, workspacePath = wsPath, hasGitIgnore = False,
                      defaultIgnores = [''.git/'', ''.DS_Store'', ''node_modules/''] \<rparr>
      in case gitignoreFile of
           NoFile \<Rightarrow> Inr matcher
         | Unreadable \<Rightarrow> Inl ReadFileError
         | Content data \<Rightarrow>
             Inr (matcher \<lparr> ignore := Some (compile (strings_Split_nl data)),
                            hasGitIgnore := True \<rparr>))"

text \<open>The loop over the default patterns, returning at the first match.\<close>

fun matchesDefault :: "string list \<Rightarrow> string \<Rightarrow> bool" where
  "matchesDefault [] relPath = False"
| "matchesDefault (pattern # patterns) relPath =
     (if strings_HasPrefix relPath pattern \<or> relPath = pattern then True
      else matchesDefault patterns relPath)"

text \<open>
  \<open>ShouldIgnore\<close>. The index expression \<open>filepath.Base(path)[0]\<close> panics on an empty
  string, and \<open>m.ignore.MatchesPath\<close> panics on a \<open>nil\<close> pointer.
\<close>

definition ShouldIgnore :: "Matcher \<Rightarrow> string \<Rightarrow> panic + bool" where
  "ShouldIgnore m path =
     (case filepath_Base path of
        [] \<Rightarrow> Inl IndexOutOfRange
      | b0 # _ \<Rightarrow>
          if b0 = CHR ''.'' then Inr True
          else
            (case filepath_Rel (workspacePath m) path of
               Inl err \<Rightarrow> Inr False
             | Inr relPath \<Rightarrow>
                 (let relPath = filepath_ToSlash relPath
                  in if matchesDefault (defaultIgnores m) relPath then Inr True
                     else if hasGitIgnore m then
                       (case ignore m of
                          None \<Rightarrow> Inl NilDereference
                        | Some matchesPath \<Rightarrow> Inr (matchesPath relPath))
                     else Inr False)))"

definition ShouldIgnoreDir :: "Matcher \<Rightarrow> string \<Rightarrow> panic + bool" where
  "ShouldIgnoreDir m path =
     (if path = workspacePath m then Inr False else ShouldIgnore m path)"

section \<open>The file system and \<open>filepath.Walk\<close>\<close>

text \<open>
  What the program sees of the file system. A node that \<open>os.Lstat\<close> can read is a
  regular file, a directory with its sorted listing, or a directory whose listing fails
  (\<open>DirUnreadable\<close>). In a listing, a name whose \<open>Lstat\<close> fails carries \<open>None\<close>.
  A file system maps a path to the node found there, \<open>None\<close> when \<open>os.Stat\<close> and
  \<open>os.Lstat\<close> fail. Symbolic links are not modelled, so the two calls agree.
\<close>

datatype fsnode =
    File
  | Dir "(string \<times> fsnode option) list"
  | DirUnreadable

type_synonym filesystem = "string \<Rightarrow> fsnode option"

datatype FileInfo = FileInfo (IsDir: bool)

fun infoOf :: "fsnode \<Rightarrow> FileInfo" where
  "infoOf File = FileInfo False"
| "infoOf (Dir names) = FileInfo True"
| "infoOf DirUnreadable = FileInfo True"

text \<open>
  A \<open>filepath.WalkFunc\<close> over a state \<open>'s\<close>: it gets the path, the file info (\<open>None\<close> for
  \<open>nil\<close>) and the error Walk met, and returns its error and the new state, or panics.
\<close>

type_synonym 's WalkFunc =
  "string \<Rightarrow> FileInfo option \<Rightarrow> error option \<Rightarrow> 's \<Rightarrow> panic + (error option \<times> 's)"

text \<open>
  \<open>walk\<close> is the library's recursive \<open>walk(path, info, walkFn)\<close> and \<open>walk_names\<close> its
  loop over the directory's names. The callbacks of this program never return
  \<open>SkipAll\<close>, which is left out. A panic in the callback ends the walk.
\<close>

function walk :: "'s WalkFunc \<Rightarrow> string \<Rightarrow> fsnode \<Rightarrow> 's \<Rightarrow> panic + (error option \<times> 's)"
  and walk_names ::
    "'s WalkFunc \<Rightarrow> string \<Rightarrow> (string \<times> fsnode option) list \<Rightarrow> 's \<Rightarrow> panic + (error option \<times> 's)"
where
  "walk walkFn path File s = walkFn path (Some (FileInfo False)) None s"
| "walk walkFn path DirUnreadable s = walkFn path (Some (FileInfo True)) (Some ReadDirError) s"
| "walk walkFn path (Dir names) s =
     (case walkFn path (Some (FileInfo True)) None s of
        Inl p \<Rightarrow> Inl p
      | Inr (err1, s1) \<Rightarrow>
          if err1 \<noteq> None then Inr (err1, s1) else walk_names walkFn path names s1)"
| "walk_names walkFn path [] s = Inr (None, s)"
| "walk_names walkFn path ((name, None) # rest) s =
     (case walkFn (filepath_Join path name) None (Some LstatError) s of
        Inl p \<Rightarrow> Inl p
      | Inr (err, s1) \<Rightarrow>
          if err \<noteq> None \<and> err \<noteq> Some SkipDir then Inr (err, s1)
          else walk_names walkFn path rest s1)"
| "walk_names walkFn path ((name, Some node) # rest) s =
     (case walk walkFn (filepath_Join path name) node s of
        Inl p \<Rightarrow> Inl p
      | Inr (err, s1) \<Rightarrow>
          if err \<noteq> None \<and> (\<not> IsDir (infoOf node) \<or> err \<noteq> Some SkipDir) then Inr (err, s1)
          else walk_names walkFn path rest s1)"
  by pat_completeness auto
termination
  by (relation "measure (\<lambda>x. case x of
        Inl (walkFn, path, node, s) \<Rightarrow> size node
      | Inr (walkFn, path, names, s) \<Rightarrow> size_list (size_prod (\<lambda>_. 0) (size_option size)) names)")
     auto

definition filepath_Walk ::
    "filesystem \<Rightarrow> string \<Rightarrow> 's WalkFunc \<Rightarrow> 's \<Rightarrow> panic + (error option \<times> 's)" where
  "filepath_Walk fs root walkFn s =
     (case (case fs root of
              None \<Rightarrow> walkFn root None (Some LstatError) s
            | Some node \<Rightarrow> walk walkFn root node s) of
        Inl p \<Rightarrow> Inl p
      | Inr (err, s1) \<Rightarrow> if err = Some SkipDir then Inr (None, s1) else Inr (err, s1))"

section \<open>The raw event source (\<open>fsnotify\<close>)\<close>

text \<open>
  The bits of \<open>fsnotify.Op\<close>, a \<open>uint32\<close>: \<open>Create Op = 1 << iota\<close>, then \<open>Write\<close>,
  \<open>Remove\<close>, \<open>Rename\<close>, \<open>Chmod\<close>.
\<close>

definition fsnotify_Create :: "32 word" where "fsnotify_Create = 1"
definition fsnotify_Write :: "32 word" where "fsnotify_Write = 2"
definition fsnotify_Remove :: "32 word" where "fsnotify_Remove = 4"
definition fsnotify_Rename :: "32 word" where "fsnotify_Rename = 8"
definition fsnotify_Chmod :: "32 word" where "fsnotify_Chmod = 16"

record Event =
  Name :: string
  Op :: "32 word"

text \<open>
  The \<open>fsnotify.Watcher\<close> as the program uses it: \<open>Add\<close> and \<open>Remove\<close> are logged in
  \<open>calls\<close>; whether an \<open>Add\<close> fails is decided by the source, from the calls so far and
  the path (\<open>addFails\<close>).
\<close>

datatype raw_call = AddCall string | RemoveCall string

record fsnotify_Watcher =
  addFails :: "raw_call list \<Rightarrow> string \<Rightarrow> bool"
  calls :: "raw_call list"

definition watcher_Add :: "string \<Rightarrow> fsnotify_Watcher \<Rightarrow> error option \<times> fsnotify_Watcher" where
  "watcher_Add path w =
     (if addFails w (calls w) path then Some AddWatchError else None,
      w \<lparr> calls := calls w @ [AddCall path] \<rparr>)"

definition watcher_Remove :: "string \<Rightarrow> fsnotify_Watcher \<Rightarrow> fsnotify_Watcher" where
  "watcher_Remove path w = w \<lparr> calls := calls w @ [RemoveCall path] \<rparr>"

section \<open>The file watcher\<close>

definition EventCreate :: int where "EventCreate = 0"
definition EventModify :: int where "EventModify = 1"
definition EventDelete :: int where "EventDelete = 2"

record FileEvent =
  Path :: string
  EventType :: int

text \<open>
  The struct \<open>FileWatcher\<close>. \<open>events\<close> holds the values sent on the channel, in order;
  \<open>done_closed\<close> says whether the channel \<open>done\<close> is closed; \<open>watchedDirs\<close> is the Go map
  \<open>map[string]bool\<close>. The mutex and the \<open>debug\<close> flag (logging only) are left out.
\<close>

record FileWatcher =
  fw_workspacePath :: string
  matcher :: Matcher
  watcher :: fsnotify_Watcher
  events :: "FileEvent list"
  done_closed :: bool
  watchedDirs :: "string \<rightharpoonup> bool"

text \<open>Reading a Go \<open>map[string]bool\<close>: a missing key reads as \<open>false\<close>.\<close>

definition mapIndex :: "(string \<rightharpoonup> bool) \<Rightarrow> string \<Rightarrow> bool" where
  "mapIndex m key = (case m key of None \<Rightarrow> False | Some b \<Rightarrow> b)"

definition startWatching :: "string \<Rightarrow> FileWatcher \<Rightarrow> error option \<times> FileWatcher" where
  "startWatching path fw =
     (if mapIndex (watchedDirs fw) path then (None, fw)
      else
        case watcher_Add path (watcher fw) of
          (Some err, w) \<Rightarrow> (Some err, fw \<lparr> watcher := w \<rparr>)
        | (None, w) \<Rightarrow>
            (None, fw \<lparr> watcher := w, watchedDirs := (watchedDirs fw)(path \<mapsto> True) \<rparr>))"

definition stopWatching :: "string \<Rightarrow> FileWatcher \<Rightarrow> FileWatcher" where
  "stopWatching path fw =
     (if mapIndex (watchedDirs fw) path then
        fw \<lparr> watcher := watcher_Remove path (watcher fw),
             watchedDirs := (watchedDirs fw)(path := None) \<rparr>
      else fw)"

text \<open>
  The callback of \<open>scanWorkspace\<close>. A method call on a \<open>nil\<close> \<open>os.FileInfo\<close> panics.
\<close>

definition scanFn :: "FileWatcher WalkFunc" where
  "scanFn path info err fw =
     (case err of
        Some e \<Rightarrow> Inr (Some e, fw)
      | None \<Rightarrow>
          (case info of
             None \<Rightarrow> Inl NilDereference
           | Some i \<Rightarrow>
               if IsDir i then
                 (case ShouldIgnoreDir (matcher fw) path of
                    Inl p \<Rightarrow> Inl p
                  | Inr True \<Rightarrow> Inr (Some SkipDir, fw)
                  | Inr False \<Rightarrow>
                      (case startWatching path fw of
                         (Some e, fw1) \<Rightarrow> Inr (Some e, fw1)
                       | (None, fw1) \<Rightarrow> Inr (None, fw1)))
               else Inr (None, fw)))"

definition scanWorkspace :: "filesystem \<Rightarrow> FileWatcher \<Rightarrow> panic + (error option \<times> FileWatcher)" where
  "scanWorkspace fs fw = filepath_Walk fs (fw_workspacePath fw) scanFn fw"

text \<open>The callback of the walk over a newly created directory, in \<open>handleFsEvent\<close>.\<close>

definition subdirFn :: "string \<Rightarrow> FileWatcher WalkFunc" where
  "subdirFn eventName path info err fw =
     (case err of
        Some e \<Rightarrow> Inr (None, fw)
      | None \<Rightarrow>
          (case info of
             None \<Rightarrow> Inl NilDereference
           | Some i \<Rightarrow>
               if IsDir i \<and> path \<noteq> eventName then
                 (case ShouldIgnoreDir (matcher fw) path of
                    Inl p \<Rightarrow> Inl p
                  | Inr True \<Rightarrow> Inr (Some SkipDir, fw)
                  | Inr False \<Rightarrow> Inr (None, snd (startWatching path fw)))
               else Inr (None, fw)))"

text \<open>
  The send on the unbuffered channel \<open>events\<close>, in a \<open>select\<close> with \<open>done\<close>: the value
  is handed to the consumer unless \<open>done\<close> is closed.
\<close>

definition sendEvent :: "FileEvent \<Rightarrow> FileWatcher \<Rightarrow> FileWatcher" where
  "sendEvent e fw = (if done_closed fw then fw else fw \<lparr> events := events fw @ [e] \<rparr>)"

text \<open>\<open>isDir := err == nil && fileInfo.IsDir()\<close> after \<open>os.Stat(event.Name)\<close>.\<close>

definition statIsDir :: "filesystem \<Rightarrow> string \<Rightarrow> bool" where
  "statIsDir fs name = (case fs name of None \<Rightarrow> False | Some node \<Rightarrow> IsDir (infoOf node))"

definition handleFsEvent :: "filesystem \<Rightarrow> Event \<Rightarrow> FileWatcher \<Rightarrow> panic + FileWatcher" where
  "handleFsEvent fs event fw =
     (case ShouldIgnore (matcher fw) (Name event) of
        Inl p \<Rightarrow> Inl p
      | Inr True \<Rightarrow> Inr fw
      | Inr False \<Rightarrow>
          if statIsDir fs (Name event) then
            (if Op event AND fsnotify_Create \<noteq> 0 then
               (case startWatching (Name event) fw of
                  (Some err, fw1) \<Rightarrow> Inr fw1
                | (None, fw1) \<Rightarrow>
                    (case filepath_Walk fs (Name event) (subdirFn (Name event)) fw1 of
                       Inl p \<Rightarrow> Inl p
                     | Inr (err, fw2) \<Rightarrow> Inr fw2))
             else if Op event AND (fsnotify_Remove OR fsnotify_Rename) \<noteq> 0 then
               Inr (stopWatching (Name event) fw)
             else Inr fw)
          else if Op event AND fsnotify_Create \<noteq> 0 then
            Inr (sendEvent \<lparr> Path = Name event, EventType = EventCreate \<rparr> fw)
          else if Op event AND fsnotify_Write \<noteq> 0 then
            Inr (sendEvent \<lparr> Path = Name event, EventType = EventModify \<rparr> fw)
          else if Op event AND (fsnotify_Remove OR fsnotify_Rename) \<noteq> 0 then
            Inr (sendEvent \<lparr> Path = Name event, EventType = EventDelete \<rparr> fw)
          else Inr fw)"



section \<open>The synchronizer (\<open>internal/server/server.go\<close>)\<close>

text \<open>
  The registry behind \<open>resourceManager.RegisterFileResource\<close> and
  \<open>DeregisterFileResource\<close>: the calls are logged in \<open>registryCalls\<close>, and whether a call
  fails is decided by the registry, from the calls so far and the path.
\<close>

datatype registry_call = RegisterCall string | DeregisterCall string

record ResourceManager =
  registerFails :: "registry_call list \<Rightarrow> string \<Rightarrow> bool"
  deregisterFails :: "registry_call list \<Rightarrow> string \<Rightarrow> bool"
  registryCalls :: "registry_call list"

definition RegisterFileResource ::
    "string \<Rightarrow> ResourceManager \<Rightarrow> error option \<times> ResourceManager" where
  "RegisterFileResource path rm =
     (if registerFails rm (registryCalls rm) path then Some RegisterError else None,
      rm \<lparr> registryCalls := registryCalls rm @ [RegisterCall path] \<rparr>)"

definition DeregisterFileResource ::
    "string \<Rightarrow> ResourceManager \<Rightarrow> error option \<times> ResourceManager" where
  "DeregisterFileResource path rm =
     (if deregisterFails rm (registryCalls rm) path then Some DeregisterError else None,
      rm \<lparr> registryCalls := registryCalls rm @ [DeregisterCall path] \<rparr>)"

text \<open>
  The struct \<open>MCPServer\<close>, as far as the handlers of file events use it: the resource
  manager and the table \<open>registeredFiles\<close>, a Go \<open>map[string]bool\<close>.
\<close>

record MCPServer =
  resourceManager :: ResourceManager
  registeredFiles :: "string \<rightharpoonup> bool"

definition registerFile :: "string \<Rightarrow> MCPServer \<Rightarrow> error option \<times> MCPServer" where
  "registerFile path s =
     (if mapIndex (registeredFiles s) path then (None, s)
      else
        case RegisterFileResource path (resourceManager s) of
          (Some err, rm) \<Rightarrow> (Some err, s \<lparr> resourceManager := rm \<rparr>)
        | (None, rm) \<Rightarrow>
            (None, s \<lparr> resourceManager := rm,
                        registeredFiles := (registeredFiles s)(path \<mapsto> True) \<rparr>))"

definition updateFile :: "string \<Rightarrow> MCPServer \<Rightarrow> error option \<times> MCPServer" where
  "updateFile path s =
     (let isRegistered = mapIndex (registeredFiles s) path
      in if isRegistered then (None, s) else registerFile path s)"

definition unregisterFile :: "string \<Rightarrow> MCPServer \<Rightarrow> error option \<times> MCPServer" where
  "unregisterFile path s =
     (if \<not> mapIndex (registeredFiles s) path then (None, s)
      else
        case DeregisterFileResource path (resourceManager s) of
          (Some err, rm) \<Rightarrow> (Some err, s \<lparr> resourceManager := rm \<rparr>)
        | (None, rm) \<Rightarrow>
            (None, s \<lparr> resourceManager := rm,
                        registeredFiles := (registeredFiles s)(path := None) \<rparr>))"

text \<open>\<open>handleFileEvent\<close>: the error of the handler is logged, the server goes on.\<close>

definition handleFileEvent :: "FileEvent \<Rightarrow> MCPServer \<Rightarrow> MCPServer" where
  "handleFileEvent event s =
     (if EventType event = EventCreate then snd (registerFile (Path event) s)
      else if EventType event = EventModify then snd (updateFile (Path event) s)
      else if EventType event = EventDelete then snd (unregisterFile (Path event) s)
      else s)"

section \<open>Concrete inputs\<close>

text \<open>
  The matcher \<open>NewMatcher\<close> builds for the workspace \<open>/w\<close> when it has no \<open>.gitignore\<close>,
  and a fresh watcher on it whose raw source never fails.
\<close>

definition exMatcher :: Matcher where
  "exMatcher = \<lparr> ignore = None, workspacePath = ''/w'', hasGitIgnore = False,
                  defaultIgnores = [''.git/'', ''.DS_Store'', ''node_modules/''] \<rparr>"

definition exSource :: fsnotify_Watcher where
  "exSource = \<lparr> addFails = (\<lambda>cs path. False), calls = [] \<rparr>"

definition exFailingSource :: fsnotify_Watcher where
  "exFailingSource = \<lparr> addFails = (\<lambda>cs path. True), calls = [] \<rparr>"

definition exWatcher :: FileWatcher where
  "exWatcher = \<lparr> fw_workspacePath = ''/w'', matcher = exMatcher, watcher = exSource,
                  events = [], done_closed = False, watchedDirs = Map.empty \<rparr>"

text \<open>The directory \<open>/w/d\<close> exists and is empty; then it is gone.\<close>

definition exFsDir :: filesystem where
  "exFsDir = (\<lambda>path. if path = ''/w/d'' then Some (Dir []) else None)"

definition exFsGone :: filesystem where
  "exFsGone = (\<lambda>path. None)"

text \<open>The workspace \<open>/w\<close> holds \<open>node_modules/\<close>, which holds \<open>x.js\<close> and \<open>lib/\<close>.\<close>

definition exFsNodeModules :: filesystem where
  "exFsNodeModules =
     (\<lambda>path. if path = ''/w'' then
                 Some (Dir [(''node_modules'', Some (Dir [(''lib'', Some (Dir [])),
                                                        (''x.js'', Some File)]))])
               else if path = ''/w/node_modules/x.js'' then Some File
               else None)"

text \<open>A workspace whose own name begins with a dot, \<open>/.ws\<close>, holding the file \<open>a.txt\<close>.\<close>

definition exDotMatcher :: Matcher where
  "exDotMatcher = \<lparr> ignore = None, workspacePath = ''/.ws'', hasGitIgnore = False,
                     defaultIgnores = [''.git/'', ''.DS_Store'', ''node_modules/''] \<rparr>"



text \<open>
  A server with an empty table and a registry that never fails; one whose table holds
  \<open>/w/a.txt\<close>; and the two with a registry that always fails.
\<close>

definition exRegistry :: ResourceManager where
  "exRegistry = \<lparr> registerFails = (\<lambda>cs path. False), deregisterFails = (\<lambda>cs path. False),
                   registryCalls = [] \<rparr>"

definition exFailingRegistry :: ResourceManager where
  "exFailingRegistry = \<lparr> registerFails = (\<lambda>cs path. True), deregisterFails = (\<lambda>cs path. True),
                          registryCalls = [] \<rparr>"

definition exServer :: MCPServer where
  "exServer = \<lparr> resourceManager = exRegistry, registeredFiles = Map.empty \<rparr>"

definition exServerWithFile :: MCPServer where
  "exServerWithFile =
     \<lparr> resourceManager = exRegistry, registeredFiles = [''/w/a.txt'' \<mapsto> True] \<rparr>"

definition exFailingServer :: MCPServer where
  "exFailingServer = \<lparr> resourceManager = exFailingRegistry, registeredFiles = Map.empty \<rparr>"

definition exFailingServerWithFile :: MCPServer where
  "exFailingServerWithFile =
     \<lparr> resourceManager = exFailingRegistry, registeredFiles = [''/w/a.txt'' \<mapsto> True] \<rparr>"

section \<open>What a run leaves alone\<close>


section \<open>The ignore matcher: totality and the root exemption\<close>

lemma filepath_Base_nonempty: "filepath_Base path \<noteq> []"
  by (simp add: filepath_Base_def Let_def)

lemma ShouldIgnore_no_index_panic: "ShouldIgnore m path \<noteq> Inl IndexOutOfRange"
  using filepath_Base_nonempty [of path]
  by (auto simp: ShouldIgnore_def Let_def split: list.splits sum.splits option.splits)

lemma NewMatcher_ignore:
  "NewMatcher compile gf ws = Inr m \<Longrightarrow> hasGitIgnore m \<Longrightarrow> ignore m \<noteq> None"
  by (auto simp: NewMatcher_def Let_def split: gitignore_file.splits)


lemma ShouldIgnore_returns:
  assumes "hasGitIgnore m \<Longrightarrow> ignore m \<noteq> None"
  shows "\<exists>b. ShouldIgnore m path = Inr b"
  using filepath_Base_nonempty [of path] assms
  by (auto simp: ShouldIgnore_def Let_def split: list.splits sum.splits option.splits)


lemma NewMatcher_exMatcher: "NewMatcher compile NoFile ''/w'' = Inr exMatcher"
  by (simp add: NewMatcher_def exMatcher_def)

lemma NewMatcher_exDotMatcher: "NewMatcher compile NoFile ''/.ws'' = Inr exDotMatcher"
  by (simp add: NewMatcher_def exDotMatcher_def)

text \<open>
  Claim C8. \<open>ShouldIgnoreDir\<close> applied to the workspace root returns \<open>false\<close>, whatever the
  matcher holds: whatever the root's name is, and whatever the default patterns and the
  \<open>.gitignore\<close> patterns match.
\<close>

theorem ShouldIgnoreDir_root: "ShouldIgnoreDir m (workspacePath m) = Inr False"
  by (simp add: ShouldIgnoreDir_def)

text \<open>
  Claim C9. \<open>filepath.Base\<close> never returns the empty string, so the index expression
  \<open>filepath.Base(path)[0]\<close> of \<open>ShouldIgnore\<close> is in bounds for every path and every
  matcher; on a matcher built by \<open>NewMatcher\<close>, \<open>ShouldIgnore\<close> returns a value for every
  path; and when the base name does not begin with a dot and \<open>filepath.Rel\<close> fails, it
  returns \<open>false\<close>.
\<close>

theorem ShouldIgnore_total:
  "filepath_Base path \<noteq> []
   \<and> ShouldIgnore m path \<noteq> Inl IndexOutOfRange
   \<and> (NewMatcher compile gf ws = Inr m \<longrightarrow> (\<exists>b. ShouldIgnore m path = Inr b))
   \<and> (hd (filepath_Base path) \<noteq> CHR ''.'' \<and> filepath_Rel (workspacePath m) path = Inl err
        \<longrightarrow> ShouldIgnore m path = Inr False)"
proof -
  have "ShouldIgnore m path = Inr False"
    if "hd (filepath_Base path) \<noteq> CHR ''.''" "filepath_Rel (workspacePath m) path = Inl err"
    using that filepath_Base_nonempty [of path]
    by (auto simp: ShouldIgnore_def split: list.splits)
  then show ?thesis
    using filepath_Base_nonempty ShouldIgnore_no_index_panic NewMatcher_ignore ShouldIgnore_returns
    by blast
qed

theorem ShouldIgnore_total_witness:
  "NewMatcher (\<lambda>ls path. False) NoFile ''/w'' = Inr exMatcher
   \<and> (\<exists>b. ShouldIgnore exMatcher [] = Inr b)
   \<and> hd (filepath_Base ''rel/x'') \<noteq> CHR ''.''
   \<and> filepath_Rel (workspacePath exMatcher) ''rel/x'' = Inl RelError
   \<and> ShouldIgnore exMatcher ''rel/x'' = Inr False"
proof -
  have a: "NewMatcher (\<lambda>ls path. False) NoFile ''/w'' = Inr exMatcher"
    by (rule NewMatcher_exMatcher)
  have b: "hd (filepath_Base ''rel/x'') \<noteq> CHR ''.''"
    by code_simp
  have c: "filepath_Rel (workspacePath exMatcher) ''rel/x'' = Inl RelError"
    by code_simp
  from ShouldIgnore_total [of "[]" exMatcher "\<lambda>ls path. False" NoFile "''/w''"] a
  have d: "\<exists>b. ShouldIgnore exMatcher [] = Inr b"
    by blast
  from ShouldIgnore_total [of "''rel/x''" exMatcher _ _ _ RelError] b c
  have e: "ShouldIgnore exMatcher ''rel/x'' = Inr False"
    by blast
  from a b c d e show ?thesis by blast
qed

section \<open>The watch set: \<open>startWatching\<close>\<close>

text \<open>
  Claim C10. \<open>startWatching\<close> on a directory already in \<open>watchedDirs\<close> returns \<open>nil\<close> and
  leaves the whole watcher as it was, the log of calls to the raw source included; when
  \<open>Add\<close> fails the map is unchanged; and the map changes only when \<open>Add\<close> was called and
  succeeded, the change being the new entry.
\<close>

theorem startWatching_guarded:
  "(mapIndex (watchedDirs fw) path \<longrightarrow> startWatching path fw = (None, fw))
   \<and> (\<not> mapIndex (watchedDirs fw) path
        \<and> addFails (watcher fw) (calls (watcher fw)) path \<longrightarrow>
        fst (startWatching path fw) = Some AddWatchError
        \<and> watchedDirs (snd (startWatching path fw)) = watchedDirs fw)
   \<and> (watchedDirs (snd (startWatching path fw)) \<noteq> watchedDirs fw \<longrightarrow>
        fst (startWatching path fw) = None
        \<and> \<not> addFails (watcher fw) (calls (watcher fw)) path
        \<and> calls (watcher (snd (startWatching path fw))) = calls (watcher fw) @ [AddCall path]
        \<and> watchedDirs (snd (startWatching path fw)) = (watchedDirs fw)(path \<mapsto> True))"
  by (auto simp: startWatching_def watcher_Add_def split: prod.splits option.splits if_splits)

theorem startWatching_guarded_witness:
  "mapIndex (watchedDirs (exWatcher \<lparr> watchedDirs := [''/w/a'' \<mapsto> True] \<rparr>)) ''/w/a''
   \<and> startWatching ''/w/a'' (exWatcher \<lparr> watchedDirs := [''/w/a'' \<mapsto> True] \<rparr>)
        = (None, exWatcher \<lparr> watchedDirs := [''/w/a'' \<mapsto> True] \<rparr>)
   \<and> \<not> mapIndex (watchedDirs (exWatcher \<lparr> watcher := exFailingSource \<rparr>)) ''/w/a''
   \<and> addFails (watcher (exWatcher \<lparr> watcher := exFailingSource \<rparr>))
        (calls (watcher (exWatcher \<lparr> watcher := exFailingSource \<rparr>))) ''/w/a''
   \<and> fst (startWatching ''/w/a'' (exWatcher \<lparr> watcher := exFailingSource \<rparr>))
        = Some AddWatchError
   \<and> watchedDirs (snd (startWatching ''/w/a'' (exWatcher \<lparr> watcher := exFailingSource \<rparr>)))
        = watchedDirs (exWatcher \<lparr> watcher := exFailingSource \<rparr>)
   \<and> watchedDirs (snd (startWatching ''/w/a'' exWatcher)) \<noteq> watchedDirs exWatcher
   \<and> fst (startWatching ''/w/a'' exWatcher) = None
   \<and> watchedDirs (snd (startWatching ''/w/a'' exWatcher))
        = (watchedDirs exWatcher)(''/w/a'' \<mapsto> True)"
proof -
  let ?w = "exWatcher \<lparr> watchedDirs := [''/w/a'' \<mapsto> True] \<rparr>"
  let ?f = "exWatcher \<lparr> watcher := exFailingSource \<rparr>"
  have a: "mapIndex (watchedDirs ?w) ''/w/a''"
    by (simp add: mapIndex_def)
  have b: "\<not> mapIndex (watchedDirs ?f) ''/w/a''"
    by (simp add: mapIndex_def exWatcher_def)
  have c: "addFails (watcher ?f) (calls (watcher ?f)) ''/w/a''"
    by (simp add: exFailingSource_def)
  have "watchedDirs (snd (startWatching ''/w/a'' exWatcher)) ''/w/a''
          \<noteq> watchedDirs exWatcher ''/w/a''"
    by (simp add: startWatching_def watcher_Add_def mapIndex_def exWatcher_def exSource_def)
  then have d: "watchedDirs (snd (startWatching ''/w/a'' exWatcher)) \<noteq> watchedDirs exWatcher"
    by metis
  from startWatching_guarded [of ?w "''/w/a''"] a
  have e: "startWatching ''/w/a'' ?w = (None, ?w)"
    by blast
  from startWatching_guarded [of ?f "''/w/a''"] b c
  have f: "fst (startWatching ''/w/a'' ?f) = Some AddWatchError
           \<and> watchedDirs (snd (startWatching ''/w/a'' ?f)) = watchedDirs ?f"
    by blast
  from startWatching_guarded [of exWatcher "''/w/a''"] d
  have g: "fst (startWatching ''/w/a'' exWatcher) = None
           \<and> watchedDirs (snd (startWatching ''/w/a'' exWatcher))
               = (watchedDirs exWatcher)(''/w/a'' \<mapsto> True)"
    by blast
  from a b c d e f g show ?thesis by blast
qed

section \<open>The synchronizer: idempotence and failures\<close>

text \<open>
  Claim C4, as the code has it. For a path not in the table whose \<open>Register\<close> call
  succeeds, two calls of \<open>registerFile\<close> in succession call \<open>Register\<close> once (the second
  call changes nothing) and leave the path in the table. For a path in the table whose
  \<open>Deregister\<close> call succeeds, two calls of \<open>unregisterFile\<close> in succession call
  \<open>Deregister\<close> once, the second call returns \<open>nil\<close> and changes nothing, and the path is
  no longer in the table.
\<close>

theorem onCreate_onDelete_twice:
  "(\<not> mapIndex (registeredFiles s) path
      \<and> \<not> registerFails (resourceManager s) (registryCalls (resourceManager s)) path \<longrightarrow>
      fst (registerFile path s) = None
      \<and> registerFile path (snd (registerFile path s)) = (None, snd (registerFile path s))
      \<and> registryCalls (resourceManager (snd (registerFile path (snd (registerFile path s)))))
          = registryCalls (resourceManager s) @ [RegisterCall path]
      \<and> mapIndex (registeredFiles (snd (registerFile path (snd (registerFile path s))))) path)
   \<and> (mapIndex (registeredFiles s) path
      \<and> \<not> deregisterFails (resourceManager s) (registryCalls (resourceManager s)) path \<longrightarrow>
      fst (unregisterFile path s) = None
      \<and> unregisterFile path (snd (unregisterFile path s)) = (None, snd (unregisterFile path s))
      \<and> registryCalls (resourceManager (snd (unregisterFile path (snd (unregisterFile path s)))))
          = registryCalls (resourceManager s) @ [DeregisterCall path]
      \<and> registeredFiles (snd (unregisterFile path (snd (unregisterFile path s)))) path = None)"
  by (simp add: unregisterFile_def registerFile_def DeregisterFileResource_def
        RegisterFileResource_def mapIndex_def)

theorem onCreate_onDelete_twice_witness:
  "\<not> mapIndex (registeredFiles exServer) ''/w/a.txt''
   \<and> \<not> registerFails (resourceManager exServer) (registryCalls (resourceManager exServer))
         ''/w/a.txt''
   \<and> registryCalls (resourceManager (snd (registerFile ''/w/a.txt''
          (snd (registerFile ''/w/a.txt'' exServer))))) = [RegisterCall ''/w/a.txt'']
   \<and> mapIndex (registeredFiles (snd (registerFile ''/w/a.txt''
          (snd (registerFile ''/w/a.txt'' exServer))))) ''/w/a.txt''
   \<and> mapIndex (registeredFiles exServerWithFile) ''/w/a.txt''
   \<and> \<not> deregisterFails (resourceManager exServerWithFile)
         (registryCalls (resourceManager exServerWithFile)) ''/w/a.txt''
   \<and> fst (unregisterFile ''/w/a.txt'' (snd (unregisterFile ''/w/a.txt'' exServerWithFile)))
        = None
   \<and> registryCalls (resourceManager (snd (unregisterFile ''/w/a.txt''
          (snd (unregisterFile ''/w/a.txt'' exServerWithFile))))) = [DeregisterCall ''/w/a.txt'']
   \<and> registeredFiles (snd (unregisterFile ''/w/a.txt''
          (snd (unregisterFile ''/w/a.txt'' exServerWithFile)))) ''/w/a.txt'' = None"
proof -
  have a: "\<not> mapIndex (registeredFiles exServer) ''/w/a.txt''"
    by (simp add: exServer_def mapIndex_def)
  have b: "\<not> registerFails (resourceManager exServer)
              (registryCalls (resourceManager exServer)) ''/w/a.txt''"
    by (simp add: exServer_def exRegistry_def)
  have c: "mapIndex (registeredFiles exServerWithFile) ''/w/a.txt''"
    by (simp add: exServerWithFile_def mapIndex_def)
  have d: "\<not> deregisterFails (resourceManager exServerWithFile)
              (registryCalls (resourceManager exServerWithFile)) ''/w/a.txt''"
    by (simp add: exServerWithFile_def exRegistry_def)
  have e: "registryCalls (resourceManager exServer) = []"
    by (simp add: exServer_def exRegistry_def)
  have f: "registryCalls (resourceManager exServerWithFile) = []"
    by (simp add: exServerWithFile_def exRegistry_def)
  from onCreate_onDelete_twice [of exServer "''/w/a.txt''"] a b
  have g: "registryCalls (resourceManager (snd (registerFile ''/w/a.txt''
              (snd (registerFile ''/w/a.txt'' exServer)))))
            = registryCalls (resourceManager exServer) @ [RegisterCall ''/w/a.txt'']"
    and h: "mapIndex (registeredFiles (snd (registerFile ''/w/a.txt''
              (snd (registerFile ''/w/a.txt'' exServer))))) ''/w/a.txt''"
    by blast+
  from onCreate_onDelete_twice [of exServerWithFile "''/w/a.txt''"] c d
  have i: "unregisterFile ''/w/a.txt'' (snd (unregisterFile ''/w/a.txt'' exServerWithFile))
            = (None, snd (unregisterFile ''/w/a.txt'' exServerWithFile))"
    and j: "registryCalls (resourceManager (snd (unregisterFile ''/w/a.txt''
              (snd (unregisterFile ''/w/a.txt'' exServerWithFile)))))
            = registryCalls (resourceManager exServerWithFile) @ [DeregisterCall ''/w/a.txt'']"
    and k: "registeredFiles (snd (unregisterFile ''/w/a.txt''
              (snd (unregisterFile ''/w/a.txt'' exServerWithFile)))) ''/w/a.txt'' = None"
    by blast+
  from i have l: "fst (unregisterFile ''/w/a.txt''
      (snd (unregisterFile ''/w/a.txt'' exServerWithFile))) = None"
    by (metis fst_conv)
  from g have g': "registryCalls (resourceManager (snd (registerFile ''/w/a.txt''
              (snd (registerFile ''/w/a.txt'' exServer))))) = [RegisterCall ''/w/a.txt'']"
    unfolding e by simp
  from j have j': "registryCalls (resourceManager (snd (unregisterFile ''/w/a.txt''
              (snd (unregisterFile ''/w/a.txt'' exServerWithFile))))) = [DeregisterCall ''/w/a.txt'']"
    unfolding f by simp
  from a b g' h c d l j' k show ?thesis by blast
qed

text \<open>
  The claim without these conditions fails. With a registry that fails, the second
  \<open>unregisterFile\<close> returns the error again, \<open>Deregister\<close> is called twice and the path
  stays in the table; likewise \<open>Register\<close> is called twice and the path stays out. For a
  path already in the table, two calls of \<open>registerFile\<close> never call \<open>Register\<close>.
\<close>

theorem onDelete_twice_counterexample:
  "fst (unregisterFile ''/w/a.txt''
          (snd (unregisterFile ''/w/a.txt'' exFailingServerWithFile))) = Some DeregisterError
   \<and> registryCalls (resourceManager (snd (unregisterFile ''/w/a.txt''
          (snd (unregisterFile ''/w/a.txt'' exFailingServerWithFile)))))
        = [DeregisterCall ''/w/a.txt'', DeregisterCall ''/w/a.txt'']
   \<and> mapIndex (registeredFiles (snd (unregisterFile ''/w/a.txt''
          (snd (unregisterFile ''/w/a.txt'' exFailingServerWithFile))))) ''/w/a.txt''
   \<and> registryCalls (resourceManager (snd (registerFile ''/w/a.txt''
          (snd (registerFile ''/w/a.txt'' exFailingServer)))))
        = [RegisterCall ''/w/a.txt'', RegisterCall ''/w/a.txt'']
   \<and> \<not> mapIndex (registeredFiles (snd (registerFile ''/w/a.txt''
          (snd (registerFile ''/w/a.txt'' exFailingServer))))) ''/w/a.txt''
   \<and> registryCalls (resourceManager (snd (registerFile ''/w/a.txt''
          (snd (registerFile ''/w/a.txt'' exServerWithFile))))) = []"
  by (simp add: unregisterFile_def registerFile_def DeregisterFileResource_def
        RegisterFileResource_def mapIndex_def exFailingServerWithFile_def exFailingServer_def
        exFailingRegistry_def exServerWithFile_def exRegistry_def)

text \<open>
  Claim C6. \<open>updateFile\<close> on a registered path returns \<open>nil\<close> and leaves the server as
  it was, with no call to the registry. On a path that is not registered it is
  \<open>registerFile\<close>: it calls \<open>Register\<close>, and when that succeeds the path is registered.
\<close>

theorem updateFile_registered_or_create:
  "(mapIndex (registeredFiles s) path \<longrightarrow> updateFile path s = (None, s))
   \<and> (\<not> mapIndex (registeredFiles s) path \<longrightarrow>
        updateFile path s = registerFile path s
        \<and> registryCalls (resourceManager (snd (updateFile path s)))
            = registryCalls (resourceManager s) @ [RegisterCall path]
        \<and> (fst (updateFile path s) = None \<longrightarrow>
              mapIndex (registeredFiles (snd (updateFile path s))) path))"
  by (auto simp: updateFile_def registerFile_def RegisterFileResource_def mapIndex_def
           split: prod.splits option.splits)

theorem updateFile_registered_or_create_witness:
  "mapIndex (registeredFiles exServerWithFile) ''/w/a.txt''
   \<and> updateFile ''/w/a.txt'' exServerWithFile = (None, exServerWithFile)
   \<and> \<not> mapIndex (registeredFiles exServer) ''/w/a.txt''
   \<and> updateFile ''/w/a.txt'' exServer = registerFile ''/w/a.txt'' exServer
   \<and> registryCalls (resourceManager (snd (updateFile ''/w/a.txt'' exServer)))
        = [RegisterCall ''/w/a.txt'']
   \<and> fst (updateFile ''/w/a.txt'' exServer) = None
   \<and> mapIndex (registeredFiles (snd (updateFile ''/w/a.txt'' exServer))) ''/w/a.txt''"
proof -
  have a: "mapIndex (registeredFiles exServerWithFile) ''/w/a.txt''"
    by (simp add: exServerWithFile_def mapIndex_def)
  have b: "\<not> mapIndex (registeredFiles exServer) ''/w/a.txt''"
    by (simp add: exServer_def mapIndex_def)
  have c: "fst (updateFile ''/w/a.txt'' exServer) = None"
    by (simp add: updateFile_def registerFile_def RegisterFileResource_def mapIndex_def
          exServer_def exRegistry_def)
  have d: "registryCalls (resourceManager exServer) = []"
    by (simp add: exServer_def exRegistry_def)
  from updateFile_registered_or_create [of exServerWithFile "''/w/a.txt''"] a
  have r1: "updateFile ''/w/a.txt'' exServerWithFile = (None, exServerWithFile)"
    by blast
  from updateFile_registered_or_create [of exServer "''/w/a.txt''"] b
  have r2: "updateFile ''/w/a.txt'' exServer = registerFile ''/w/a.txt'' exServer"
    and r3: "registryCalls (resourceManager (snd (updateFile ''/w/a.txt'' exServer)))
              = registryCalls (resourceManager exServer) @ [RegisterCall ''/w/a.txt'']"
    and r4: "fst (updateFile ''/w/a.txt'' exServer) = None \<longrightarrow>
              mapIndex (registeredFiles (snd (updateFile ''/w/a.txt'' exServer))) ''/w/a.txt''"
    by blast+
  from r3 have r5: "registryCalls (resourceManager (snd (updateFile ''/w/a.txt'' exServer)))
              = [RegisterCall ''/w/a.txt'']"
    unfolding d by simp
  from r4 c have r6: "mapIndex (registeredFiles (snd (updateFile ''/w/a.txt'' exServer))) ''/w/a.txt''"
    by blast
  from a r1 b r2 r5 c r6 show ?thesis by blast
qed

text \<open>
  Claim C7. When \<open>Register\<close> fails in \<open>registerFile\<close> the error is returned and the table
  is unchanged, the path still absent; when \<open>Deregister\<close> fails in \<open>unregisterFile\<close> the
  error is returned and the table is unchanged, the path still present. Either function
  changes the table only when its registry call was made and succeeded.
\<close>

theorem registry_failure_keeps_table:
  "(\<not> mapIndex (registeredFiles s) path
      \<and> registerFails (resourceManager s) (registryCalls (resourceManager s)) path \<longrightarrow>
        fst (registerFile path s) = Some RegisterError
        \<and> registeredFiles (snd (registerFile path s)) = registeredFiles s
        \<and> \<not> mapIndex (registeredFiles (snd (registerFile path s))) path)
   \<and> (mapIndex (registeredFiles s) path
      \<and> deregisterFails (resourceManager s) (registryCalls (resourceManager s)) path \<longrightarrow>
        fst (unregisterFile path s) = Some DeregisterError
        \<and> registeredFiles (snd (unregisterFile path s)) = registeredFiles s
        \<and> mapIndex (registeredFiles (snd (unregisterFile path s))) path)
   \<and> (registeredFiles (snd (registerFile path s)) \<noteq> registeredFiles s \<longrightarrow>
        fst (registerFile path s) = None
        \<and> \<not> registerFails (resourceManager s) (registryCalls (resourceManager s)) path
        \<and> registryCalls (resourceManager (snd (registerFile path s)))
            = registryCalls (resourceManager s) @ [RegisterCall path])
   \<and> (registeredFiles (snd (unregisterFile path s)) \<noteq> registeredFiles s \<longrightarrow>
        fst (unregisterFile path s) = None
        \<and> \<not> deregisterFails (resourceManager s) (registryCalls (resourceManager s)) path
        \<and> registryCalls (resourceManager (snd (unregisterFile path s)))
            = registryCalls (resourceManager s) @ [DeregisterCall path])"
  by (auto simp: registerFile_def unregisterFile_def RegisterFileResource_def
        DeregisterFileResource_def split: prod.splits option.splits if_splits)


theorem registry_failure_keeps_table_witness:
  "\<not> mapIndex (registeredFiles exFailingServer) ''/w/a.txt''
   \<and> registerFails (resourceManager exFailingServer)
        (registryCalls (resourceManager exFailingServer)) ''/w/a.txt''
   \<and> fst (registerFile ''/w/a.txt'' exFailingServer) = Some RegisterError
   \<and> registeredFiles (snd (registerFile ''/w/a.txt'' exFailingServer))
        = registeredFiles exFailingServer
   \<and> mapIndex (registeredFiles exFailingServerWithFile) ''/w/a.txt''
   \<and> deregisterFails (resourceManager exFailingServerWithFile)
        (registryCalls (resourceManager exFailingServerWithFile)) ''/w/a.txt''
   \<and> fst (unregisterFile ''/w/a.txt'' exFailingServerWithFile) = Some DeregisterError
   \<and> registeredFiles (snd (unregisterFile ''/w/a.txt'' exFailingServerWithFile))
        = registeredFiles exFailingServerWithFile
   \<and> registeredFiles (snd (registerFile ''/w/a.txt'' exServer)) \<noteq> registeredFiles exServer
   \<and> fst (registerFile ''/w/a.txt'' exServer) = None
   \<and> registeredFiles (snd (unregisterFile ''/w/a.txt'' exServerWithFile))
        \<noteq> registeredFiles exServerWithFile
   \<and> fst (unregisterFile ''/w/a.txt'' exServerWithFile) = None"
proof -
  have a: "\<not> mapIndex (registeredFiles exFailingServer) ''/w/a.txt''"
    by (simp add: exFailingServer_def mapIndex_def)
  have b: "registerFails (resourceManager exFailingServer)
            (registryCalls (resourceManager exFailingServer)) ''/w/a.txt''"
    by (simp add: exFailingServer_def exFailingRegistry_def)
  have c: "mapIndex (registeredFiles exFailingServerWithFile) ''/w/a.txt''"
    by (simp add: exFailingServerWithFile_def mapIndex_def)
  have d: "deregisterFails (resourceManager exFailingServerWithFile)
            (registryCalls (resourceManager exFailingServerWithFile)) ''/w/a.txt''"
    by (simp add: exFailingServerWithFile_def exFailingRegistry_def)
  have "registeredFiles (snd (registerFile ''/w/a.txt'' exServer)) ''/w/a.txt''
          \<noteq> registeredFiles exServer ''/w/a.txt''"
    by (simp add: registerFile_def RegisterFileResource_def mapIndex_def exServer_def
          exRegistry_def)
  then have e: "registeredFiles (snd (registerFile ''/w/a.txt'' exServer))
                  \<noteq> registeredFiles exServer"
    by metis
  have "registeredFiles (snd (unregisterFile ''/w/a.txt'' exServerWithFile)) ''/w/a.txt''
          \<noteq> registeredFiles exServerWithFile ''/w/a.txt''"
    by (simp add: unregisterFile_def DeregisterFileResource_def mapIndex_def
          exServerWithFile_def exRegistry_def)
  then have f: "registeredFiles (snd (unregisterFile ''/w/a.txt'' exServerWithFile))
                  \<noteq> registeredFiles exServerWithFile"
    by metis
  note t1 = registry_failure_keeps_table [of exFailingServer "''/w/a.txt''"]
  note t2 = registry_failure_keeps_table [of exFailingServerWithFile "''/w/a.txt''"]
  note t3 = registry_failure_keeps_table [of exServer "''/w/a.txt''"]
  note t4 = registry_failure_keeps_table [of exServerWithFile "''/w/a.txt''"]
  from t1 a b have g: "fst (registerFile ''/w/a.txt'' exFailingServer) = Some RegisterError
      \<and> registeredFiles (snd (registerFile ''/w/a.txt'' exFailingServer))
          = registeredFiles exFailingServer"
    by blast
  from t2 c d have h: "fst (unregisterFile ''/w/a.txt'' exFailingServerWithFile)
        = Some DeregisterError
      \<and> registeredFiles (snd (unregisterFile ''/w/a.txt'' exFailingServerWithFile))
          = registeredFiles exFailingServerWithFile"
    by blast
  from t3 e have i: "fst (registerFile ''/w/a.txt'' exServer) = None" by blast
  from t4 f have j: "fst (unregisterFile ''/w/a.txt'' exServerWithFile) = None" by blast
  from a b c d e f g h i j show ?thesis by blast
qed

section \<open>Classification of file notifications\<close>

lemma and_Create: "(op AND fsnotify_Create \<noteq> 0) = bit op 0"
  using and_exp_eq_0_iff_not_bit [of op 0] by (simp add: fsnotify_Create_def)

lemma and_Write: "(op AND fsnotify_Write \<noteq> 0) = bit op 1"
  using and_exp_eq_0_iff_not_bit [of op 1] by (simp add: fsnotify_Write_def)

lemma and_Remove_Rename:
  "(op AND (fsnotify_Remove OR fsnotify_Rename) \<noteq> 0) = (bit op 2 \<or> bit op 3)"
proof -
  have r: "fsnotify_Remove = 2 ^ 2" and n: "fsnotify_Rename = 2 ^ 3"
    by (simp_all add: fsnotify_Remove_def fsnotify_Rename_def)
  have "op AND (fsnotify_Remove OR fsnotify_Rename) = (op AND 2 ^ 2) OR (op AND 2 ^ 3)"
    unfolding r n by (rule bit.conj_disj_distrib)
  then show ?thesis
    using and_exp_eq_0_iff_not_bit [of op 2] and_exp_eq_0_iff_not_bit [of op 3]
    by (simp only: or_eq_0_iff) blast
qed

text \<open>
  Claim C5. A raw notification that reaches the classification (its path is not ignored,
  does not stat as a directory, and \<open>done\<close> is not closed) is classified by the precedence
  Create over Write over Remove/Rename: with the Create bit set a Create event is sent,
  whatever the other bits are; else with the Write bit a Modify event; else with the
  Remove or the Rename bit a Delete event; with none of these bits nothing is sent and
  the watcher is unchanged.
\<close>

theorem classification_precedence:
  assumes "ShouldIgnore (matcher fw) (Name ev) = Inr False"
    and "\<not> statIsDir fs (Name ev)"
    and "\<not> done_closed fw"
  shows "handleFsEvent fs ev fw =
     Inr (if bit (Op ev) 0 then
            fw \<lparr> events := events fw @ [\<lparr> Path = Name ev, EventType = EventCreate \<rparr>] \<rparr>
          else if bit (Op ev) 1 then
            fw \<lparr> events := events fw @ [\<lparr> Path = Name ev, EventType = EventModify \<rparr>] \<rparr>
          else if bit (Op ev) 2 \<or> bit (Op ev) 3 then
            fw \<lparr> events := events fw @ [\<lparr> Path = Name ev, EventType = EventDelete \<rparr>] \<rparr>
          else fw)"
  using assms
  by (simp add: handleFsEvent_def sendEvent_def and_Create and_Write and_Remove_Rename)

theorem classification_precedence_witness:
  "ShouldIgnore (matcher exWatcher) ''/w/notes.txt'' = Inr False
   \<and> \<not> statIsDir exFsGone ''/w/notes.txt''
   \<and> \<not> done_closed exWatcher
   \<and> handleFsEvent exFsGone \<lparr> Name = ''/w/notes.txt'', Op = fsnotify_Create OR fsnotify_Write \<rparr>
        exWatcher
      = Inr (exWatcher \<lparr> events := [\<lparr> Path = ''/w/notes.txt'', EventType = EventCreate \<rparr>] \<rparr>)
   \<and> handleFsEvent exFsGone \<lparr> Name = ''/w/notes.txt'', Op = fsnotify_Write OR fsnotify_Remove \<rparr>
        exWatcher
      = Inr (exWatcher \<lparr> events := [\<lparr> Path = ''/w/notes.txt'', EventType = EventModify \<rparr>] \<rparr>)
   \<and> handleFsEvent exFsGone \<lparr> Name = ''/w/notes.txt'', Op = fsnotify_Rename \<rparr> exWatcher
      = Inr (exWatcher \<lparr> events := [\<lparr> Path = ''/w/notes.txt'', EventType = EventDelete \<rparr>] \<rparr>)
   \<and> handleFsEvent exFsGone \<lparr> Name = ''/w/notes.txt'', Op = fsnotify_Chmod \<rparr> exWatcher
      = Inr exWatcher"
proof -
  have a: "ShouldIgnore (matcher exWatcher) ''/w/notes.txt'' = Inr False"
    by code_simp
  have b: "\<not> statIsDir exFsGone ''/w/notes.txt''"
    by (simp add: statIsDir_def exFsGone_def)
  have c: "\<not> done_closed exWatcher"
    by (simp add: exWatcher_def)
  have e: "events exWatcher = []"
    by (simp add: exWatcher_def)
  have b1: "bit (fsnotify_Create OR fsnotify_Write) 0"
    by (simp add: fsnotify_Create_def fsnotify_Write_def bit_or_iff)
  have b2: "\<not> bit (fsnotify_Write OR fsnotify_Remove) 0"
    "bit (fsnotify_Write OR fsnotify_Remove) 1"
    by (simp_all add: fsnotify_Remove_def fsnotify_Write_def bit_or_iff)
  have b3: "\<not> bit fsnotify_Rename 0" "\<not> bit fsnotify_Rename 1" "bit fsnotify_Rename 3"
    by (simp_all add: fsnotify_Rename_def)
  have b4: "\<not> bit fsnotify_Chmod 0" "\<not> bit fsnotify_Chmod 1" "\<not> bit fsnotify_Chmod 2"
    "\<not> bit fsnotify_Chmod 3"
    by (simp_all add: fsnotify_Chmod_def)
  have r1: "handleFsEvent exFsGone
      \<lparr> Name = ''/w/notes.txt'', Op = fsnotify_Create OR fsnotify_Write \<rparr> exWatcher
      = Inr (exWatcher \<lparr> events := [\<lparr> Path = ''/w/notes.txt'', EventType = EventCreate \<rparr>] \<rparr>)"
    using classification_precedence [of exWatcher
        "\<lparr> Name = ''/w/notes.txt'', Op = fsnotify_Create OR fsnotify_Write \<rparr>" exFsGone]
      a b c b1
    by (simp add: e)
  have r2: "handleFsEvent exFsGone
      \<lparr> Name = ''/w/notes.txt'', Op = fsnotify_Write OR fsnotify_Remove \<rparr> exWatcher
      = Inr (exWatcher \<lparr> events := [\<lparr> Path = ''/w/notes.txt'', EventType = EventModify \<rparr>] \<rparr>)"
    using classification_precedence [of exWatcher
        "\<lparr> Name = ''/w/notes.txt'', Op = fsnotify_Write OR fsnotify_Remove \<rparr>" exFsGone]
      a b c b2
    by (simp add: e)
  have r3: "handleFsEvent exFsGone \<lparr> Name = ''/w/notes.txt'', Op = fsnotify_Rename \<rparr> exWatcher
      = Inr (exWatcher \<lparr> events := [\<lparr> Path = ''/w/notes.txt'', EventType = EventDelete \<rparr>] \<rparr>)"
    using classification_precedence [of exWatcher
        "\<lparr> Name = ''/w/notes.txt'', Op = fsnotify_Rename \<rparr>" exFsGone]
      a b c b3
    by (simp add: e)
  have r4: "handleFsEvent exFsGone \<lparr> Name = ''/w/notes.txt'', Op = fsnotify_Chmod \<rparr> exWatcher
      = Inr exWatcher"
    using classification_precedence [of exWatcher
        "\<lparr> Name = ''/w/notes.txt'', Op = fsnotify_Chmod \<rparr>" exFsGone]
      a b c b4
    by simp
  from a b c r1 r2 r3 r4 show ?thesis by blast
qed

section \<open>Walks return, and keep what their callback keeps\<close>



section \<open>Ignore soundness\<close>















section \<open>A directory created and then removed\<close>

text \<open>
  \<open>handleFsEvent\<close> calls \<open>stopWatching\<close> only in the branch where the path stats as a
  directory. Once the path is gone, whatever the bits of the notification are, the
  watch set and the raw source stay as they were.
\<close>

lemma vanished_path_keeps_watch_set:
  assumes "fs (Name event) = None" and "handleFsEvent fs event fw = Inr fw'"
  shows "watchedDirs fw' = watchedDirs fw \<and> watcher fw' = watcher fw"
  using assms
  by (auto simp: handleFsEvent_def statIsDir_def sendEvent_def
           split: sum.splits bool.splits if_splits)

text \<open>
  Claim C1, at the input where the code departs from it. The watcher on \<open>/w\<close> watches
  nothing. The notification Create for \<open>/w/d\<close> arrives while \<open>/w/d\<close> is an empty
  directory: the directory is added to \<open>watchedDirs\<close>. The notification Remove for
  \<open>/w/d\<close> arrives when the directory is gone: \<open>watchedDirs\<close> still holds \<open>/w/d\<close>, the raw
  source got no \<open>Remove\<close>, and a Delete event for the directory is sent instead.
\<close>

theorem removed_directory_stays_watched:
  "(case handleFsEvent exFsDir \<lparr> Name = ''/w/d'', Op = fsnotify_Create \<rparr> exWatcher of
      Inl p \<Rightarrow> False
    | Inr fw1 \<Rightarrow>
        watchedDirs exWatcher ''/w/d'' = None
        \<and> watchedDirs fw1 ''/w/d'' = Some True
        \<and> (case handleFsEvent exFsGone \<lparr> Name = ''/w/d'', Op = fsnotify_Remove \<rparr> fw1 of
             Inl p \<Rightarrow> False
           | Inr fw2 \<Rightarrow>
               watchedDirs fw2 ''/w/d'' = Some True
               \<and> calls (watcher fw2) = [AddCall ''/w/d'']
               \<and> events fw2 = [\<lparr> Path = ''/w/d'', EventType = EventDelete \<rparr>]))"
  by code_simp

section \<open>The directory \<open>node_modules\<close>\<close>

text \<open>
  What lies inside \<open>node_modules\<close> is ignored: its workspace-relative path begins with
  the default pattern \<open>node_modules/\<close>.
\<close>

lemma inside_node_modules_ignored:
  assumes "filepath_Rel (workspacePath m) path = Inr relPath"
    and "strings_HasPrefix relPath ''node_modules/''"
    and "''node_modules/'' \<in> set (defaultIgnores m)"
  shows "ShouldIgnore m path = Inr True"
proof -
  have "matchesDefault pats relPath" if "''node_modules/'' \<in> set pats" for pats
    using that assms(2) by (induction pats) auto
  from this [OF assms(3)] have "matchesDefault (defaultIgnores m) relPath" .
  with assms(1) show ?thesis
    using filepath_Base_nonempty [of path]
    by (auto simp: ShouldIgnore_def filepath_ToSlash_def split: list.splits)
qed

text \<open>
  Claim C2, at the input where the code departs from it. For the workspace \<open>/w\<close> without
  a \<open>.gitignore\<close>, the directory \<open>/w/node_modules\<close> has the workspace-relative form
  \<open>node_modules\<close>, which neither begins with nor equals the pattern \<open>node_modules/\<close>:
  \<open>ShouldIgnoreDir\<close> returns \<open>false\<close> and the initial scan adds a watch for the directory.
  The file \<open>x.js\<close> inside it is ignored.
\<close>

theorem node_modules_directory_watched:
  "NewMatcher compile NoFile ''/w'' = Inr exMatcher
   \<and> filepath_Rel (workspacePath exMatcher) ''/w/node_modules'' = Inr ''node_modules''
   \<and> ShouldIgnoreDir exMatcher ''/w/node_modules'' = Inr False
   \<and> (case scanWorkspace exFsNodeModules exWatcher of
         Inl p \<Rightarrow> False
       | Inr (err, fw') \<Rightarrow>
           err = None \<and> watchedDirs fw' ''/w/node_modules'' = Some True
           \<and> calls (watcher fw') = [AddCall ''/w'', AddCall ''/w/node_modules''])
   \<and> ShouldIgnore exMatcher ''/w/node_modules/x.js'' = Inr True"
proof -
  have a: "filepath_Rel (workspacePath exMatcher) ''/w/node_modules'' = Inr ''node_modules''"
    by code_simp
  have b: "ShouldIgnoreDir exMatcher ''/w/node_modules'' = Inr False"
    by code_simp
  have c: "case scanWorkspace exFsNodeModules exWatcher of
         Inl p \<Rightarrow> False
       | Inr (err, fw') \<Rightarrow>
           err = None \<and> watchedDirs fw' ''/w/node_modules'' = Some True
           \<and> calls (watcher fw') = [AddCall ''/w'', AddCall ''/w/node_modules'']"
    by code_simp
  have d: "ShouldIgnore exMatcher ''/w/node_modules/x.js'' = Inr True"
    by code_simp
  from NewMatcher_exMatcher [of compile] a b c d show ?thesis by blast
qed

end
